theory Spec2Isabelle
  imports Main "HOL-Library.Word" "HOL-Library.Signed_Division"
begin

unbundle bit_operations_syntax

section \<open>Common types\<close>

text \<open>
  Go's \<^verbatim>\<open>[]byte\<close> is a list of 8-bit words; a nil slice and an empty slice are both
  the empty list. A Go \<^verbatim>\<open>string\<close> is a \<^typ>\<open>string\<close>, whose characters are bytes,
  so \<^term>\<open>length\<close> is Go's \<^verbatim>\<open>len\<close>. \<^verbatim>\<open>uint64\<close>, \<^verbatim>\<open>uint32\<close> and \<^verbatim>\<open>int8\<close>
  are words of that width: arithmetic wraps as Go's does.
\<close>

type_synonym byte = "8 word"
type_synonym bytes = "8 word list"

text \<open>
  Go's \<^verbatim>\<open>error\<close> values. \<^verbatim>\<open>errors.New\<close> and \<^verbatim>\<open>fmt.Errorf\<close> keep their message;
  \<^verbatim>\<open>fmt.Errorf("...: %w", err)\<close> keeps the wrapped error; an error made by a library
  outside the repository (msgpack, the transformer) is opaque.
\<close>

datatype error =
    errors_New string
  | fmt_Errorf string
  | fmt_Errorf_w string error
  | library_error nat

section \<open>conf/server_options.go\<close>

record Region =
  Region_Enable :: bool
  Region_Schedule :: string
  Region_Threshold :: "8 word"

record Encryptor =
  Encryptor_Enable :: bool
  Encryptor_Secret :: string

record Compressor =
  Compressor_Enable :: bool

record Checkpoint =
  Checkpoint_Enable :: bool
  Checkpoint_Interval :: "32 word"

text \<open>\<^verbatim>\<open>Port\<close> is a Go \<^verbatim>\<open>int\<close>; the comparisons of \<^verbatim>\<open>validatePort\<close> do not overflow.\<close>

record ServerOptions =
  Port :: int
  Path :: string
  Debug :: bool
  LogPath :: string
  Password :: string
  Region :: Region
  Encryptor :: Encryptor
  Compressor :: Compressor
  Checkpoint :: Checkpoint
  AllowIP :: "string list"

text \<open>
  The map \<^verbatim>\<open>valid\<close> of the AES key lengths. Reading a Go map at a missing key gives
  the zero value, \<^verbatim>\<open>false\<close>.
\<close>

definition valid :: "nat \<rightharpoonup> bool" where
  "valid = [16 \<mapsto> True, 24 \<mapsto> True, 32 \<mapsto> True]"

definition map_index_bool :: "('k \<rightharpoonup> bool) \<Rightarrow> 'k \<Rightarrow> bool" where
  "map_index_bool m k = (case m k of None \<Rightarrow> False | Some b \<Rightarrow> b)"

text \<open>Each validator returns \<^verbatim>\<open>nil\<close> (\<^term>\<open>None\<close>) or an error.\<close>

definition validateEncryptor :: "Encryptor \<Rightarrow> error option" where
  "validateEncryptor encryptor =
     (if \<not> Encryptor_Enable encryptor then None
      else if map_index_bool valid (length (Encryptor_Secret encryptor)) then None
      else Some (errors_New ''invalid secret key length it must be 16, 24, or 32 bytes''))"

definition validatePort :: "int \<Rightarrow> error option" where
  "validatePort port =
     (if port \<le> 1024 \<or> port \<ge> 65535
      then Some (errors_New ''port range must be between 1025 and 65534'')
      else None)"

definition validatePath :: "string \<Rightarrow> error option" where
  "validatePath path =
     (if path = '''' then Some (errors_New ''data directory path cannot be empty'') else None)"

definition validatePassword :: "string \<Rightarrow> error option" where
  "validatePassword password =
     (if password = '''' then Some (errors_New ''auth password cannot be empty'') else None)"

text \<open>The \<^verbatim>\<open>Validator\<close> interface and its four implementations.\<close>

datatype Validator = PortValidator | PathValidator | AuthValidator | EncryptorValidator

fun Validate :: "Validator \<Rightarrow> ServerOptions \<Rightarrow> error option" where
  "Validate PortValidator opt = validatePort (Port opt)"
| "Validate PathValidator opt = validatePath (Path opt)"
| "Validate AuthValidator opt = validatePassword (Password opt)"
| "Validate EncryptorValidator opt = validateEncryptor (Encryptor opt)"

text \<open>The loop of \<^verbatim>\<open>Vaildated\<close>: the first validator that fails ends it.\<close>

fun run_validators :: "Validator list \<Rightarrow> ServerOptions \<Rightarrow> error option" where
  "run_validators [] opt = None"
| "run_validators (validator # rest) opt =
     (case Validate validator opt of
        Some err \<Rightarrow> Some err
      | None \<Rightarrow> run_validators rest opt)"

definition Vaildated :: "ServerOptions \<Rightarrow> error option" where
  "Vaildated opt =
     run_validators [PortValidator, PathValidator, AuthValidator, EncryptorValidator] opt"

text \<open>The configuration of \<^verbatim>\<open>DefaultConfigJSON\<close>, with the encryptor switched on.\<close>

definition default_options :: ServerOptions where
  "default_options =
     \<lparr> Port = 2668, Path = ''/tmp/urnadb'', Debug = False, LogPath = ''/tmp/urnadb/out.log'',
       Password = ''Are we wide open to the world?'',
       Region = \<lparr> Region_Enable = True, Region_Schedule = ''0 0 3 * * *'', Region_Threshold = 2 \<rparr>,
       Encryptor = \<lparr> Encryptor_Enable = True, Encryptor_Secret = ''your-static-data-secret!'' \<rparr>,
       Compressor = \<lparr> Compressor_Enable = False \<rparr>,
       Checkpoint = \<lparr> Checkpoint_Enable = False, Checkpoint_Interval = 1800 \<rparr>,
       AllowIP = [] \<rparr>"

section \<open>package types\<close>

text \<open>
  \<^verbatim>\<open>float64\<close> scores and the elements of dynamic type (\<^verbatim>\<open>any\<close>) that a Collection or
  a Table holds are opaque: no function below looks inside one.
\<close>

typedecl float64
typedecl item

record types_Set =
  Set_Set :: "string \<rightharpoonup> bool"
  Set_TTL :: "64 word"

record types_ZSet =
  ZSet_ZSet :: "string \<rightharpoonup> float64"
  ZSet_TTL :: "64 word"
  ZSet_sortedScores :: "string list"

record types_Text =
  Text_Content :: string
  Text_TTL :: "64 word"

record types_Table =
  Table_Table :: "string \<rightharpoonup> item"
  Table_TTL :: "64 word"

record types_Number =
  Number_Value :: "64 word"
  Number_TTL :: "64 word"

text \<open>
  The slice of a Collection is \<^term>\<open>None\<close> when it is \<^verbatim>\<open>nil\<close>, as in \<^verbatim>\<open>new(Collection)\<close>, and
  \<^term>\<open>Some []\<close> when it is empty and not \<^verbatim>\<open>nil\<close>, as after \<^verbatim>\<open>make([]any, 0)\<close>: msgpack and
  JSON write the two differently. The maps of the other types are never \<^verbatim>\<open>nil\<close> in a
  value that \<^verbatim>\<open>New...\<close> or \<^verbatim>\<open>Clear\<close> has made; a map is given by its entries.
\<close>

record types_Collection =
  Collection_Collection :: "item list option"
  Collection_TTL :: "64 word"

definition NewSet :: types_Set where
  "NewSet = \<lparr> Set_Set = Map.empty, Set_TTL = 0 \<rparr>"

definition NewZSet :: types_ZSet where
  "NewZSet = \<lparr> ZSet_ZSet = Map.empty, ZSet_TTL = 0, ZSet_sortedScores = [] \<rparr>"

definition NewText :: "string \<Rightarrow> types_Text" where
  "NewText content = \<lparr> Text_Content = content, Text_TTL = 0 \<rparr>"

definition NewTable :: types_Table where
  "NewTable = \<lparr> Table_Table = Map.empty, Table_TTL = 0 \<rparr>"

definition NewNumber :: "64 word \<Rightarrow> types_Number" where
  "NewNumber num = \<lparr> Number_Value = num, Number_TTL = 0 \<rparr>"

definition NewCollection :: types_Collection where
  "NewCollection = \<lparr> Collection_Collection = None, Collection_TTL = 0 \<rparr>"

definition Set_Clear :: "types_Set \<Rightarrow> types_Set" where
  "Set_Clear s = s \<lparr> Set_TTL := 0, Set_Set := Map.empty \<rparr>"

definition ZSet_Clear :: "types_ZSet \<Rightarrow> types_ZSet" where
  "ZSet_Clear z = z \<lparr> ZSet_TTL := 0, ZSet_ZSet := Map.empty, ZSet_sortedScores := [] \<rparr>"

definition Text_Clear :: "types_Text \<Rightarrow> types_Text" where
  "Text_Clear text = text \<lparr> Text_TTL := 0, Text_Content := [] \<rparr>"

definition Table_Clear :: "types_Table \<Rightarrow> types_Table" where
  "Table_Clear tab = tab \<lparr> Table_TTL := 0, Table_Table := Map.empty \<rparr>"

definition Number_Clear :: "types_Number \<Rightarrow> types_Number" where
  "Number_Clear num = num \<lparr> Number_TTL := 0, Number_Value := 0 \<rparr>"

definition Collection_Clear :: "types_Collection \<Rightarrow> types_Collection" where
  "Collection_Clear cle = cle \<lparr> Collection_TTL := 0, Collection_Collection := Some [] \<rparr>"

text \<open>
  A Go interface value (\<^verbatim>\<open>any\<close>, \<^verbatim>\<open>Serializable\<close>) is a value together with its dynamic
  type. The six pointer types of the package are the first six cases. The interface
  \<^verbatim>\<open>Serializable\<close> is open: a value of any other type with a \<^verbatim>\<open>ToBytes\<close> method is
  the last case, given by what its \<^verbatim>\<open>ToBytes\<close> returns.
\<close>

datatype any =
    Set_ptr types_Set
  | ZSet_ptr types_ZSet
  | Text_ptr types_Text
  | Table_ptr types_Table
  | Number_ptr types_Number
  | Collection_ptr types_Collection
  | other_type "error + bytes"

type_synonym Serializable = any

text \<open>
  The msgpack library is outside the repository: its \<^verbatim>\<open>Marshal\<close> and \<^verbatim>\<open>Unmarshal\<close>, at
  the six content types, are parameters. \<^verbatim>\<open>Unmarshal(data, &target)\<close> takes the bytes and
  what the target holds before the call, and returns an error or what the target holds
  after it.
\<close>

record msgpack =
  Marshal_set :: "(string \<rightharpoonup> bool) \<Rightarrow> error + bytes"
  Marshal_zset :: "(string \<rightharpoonup> float64) \<Rightarrow> error + bytes"
  Marshal_text :: "string \<Rightarrow> error + bytes"
  Marshal_table :: "(string \<rightharpoonup> item) \<Rightarrow> error + bytes"
  Marshal_number :: "64 word \<Rightarrow> error + bytes"
  Marshal_collection :: "item list option \<Rightarrow> error + bytes"
  Unmarshal_set :: "bytes \<Rightarrow> (string \<rightharpoonup> bool) \<Rightarrow> error + (string \<rightharpoonup> bool)"
  Unmarshal_zset :: "bytes \<Rightarrow> (string \<rightharpoonup> float64) \<Rightarrow> error + (string \<rightharpoonup> float64)"
  Unmarshal_text :: "bytes \<Rightarrow> string \<Rightarrow> error + string"
  Unmarshal_table :: "bytes \<Rightarrow> (string \<rightharpoonup> item) \<Rightarrow> error + (string \<rightharpoonup> item)"
  Unmarshal_number :: "bytes \<Rightarrow> 64 word \<Rightarrow> error + 64 word"
  Unmarshal_collection :: "bytes \<Rightarrow> item list option \<Rightarrow> error + item list option"

fun ToBytes :: "msgpack \<Rightarrow> Serializable \<Rightarrow> error + bytes" where
  "ToBytes mp (Set_ptr s) = Marshal_set mp (Set_Set s)"
| "ToBytes mp (ZSet_ptr zs) = Marshal_zset mp (ZSet_ZSet zs)"
| "ToBytes mp (Text_ptr text) = Marshal_text mp (Text_Content text)"
| "ToBytes mp (Table_ptr tab) = Marshal_table mp (Table_Table tab)"
| "ToBytes mp (Number_ptr num) = Marshal_number mp (Number_Value num)"
| "ToBytes mp (Collection_ptr cle) = Marshal_collection mp (Collection_Collection cle)"
| "ToBytes mp (other_type r) = r"

subsection \<open>The object pools of package types\<close>

text \<open>
  A \<^verbatim>\<open>sync.Pool\<close> is the list of the values put into it, oldest first. \<^verbatim>\<open>Get\<close> takes
  an arbitrary item out of the pool, or ignores the pool and calls \<^verbatim>\<open>New\<close>: the
  choice is the argument \<open>pick\<close> (\<^term>\<open>Some i\<close> takes item \<open>i\<close>; \<^term>\<open>None\<close>, or an
  index outside the pool, calls \<^verbatim>\<open>New\<close>).
\<close>

definition Pool_Put :: "'a list \<Rightarrow> 'a \<Rightarrow> 'a list" where
  "Pool_Put pool x = pool @ [x]"

definition Pool_Get :: "'a \<Rightarrow> nat option \<Rightarrow> 'a list \<Rightarrow> 'a \<times> 'a list" where
  "Pool_Get new pick pool =
     (case pick of
        None \<Rightarrow> (new, pool)
      | Some i \<Rightarrow> if i < length pool then (pool ! i, take i pool @ drop (Suc i) pool)
                  else (new, pool))"

text \<open>The loops of the \<^verbatim>\<open>init\<close> functions: \<open>n\<close> times \<^verbatim>\<open>Put\<close> of a new value.\<close>

primrec Put_times :: "nat \<Rightarrow> 'a \<Rightarrow> 'a list \<Rightarrow> 'a list" where
  "Put_times 0 x pool = pool"
| "Put_times (Suc n) x pool = Put_times n x (Pool_Put pool x)"

record types_pools =
  collectionPools :: "any list"
  numberPools :: "any list"
  setPools :: "any list"
  tablePools :: "any list"
  textPools :: "any list"
  zsetPools :: "any list"

definition no_pools :: types_pools where
  "no_pools = \<lparr> collectionPools = [], numberPools = [], setPools = [], tablePools = [],
                 textPools = [], zsetPools = [] \<rparr>"

text \<open>
  The \<^verbatim>\<open>init\<close> function of each file, as written: the one beside \<^verbatim>\<open>Set\<close> fills
  \<^verbatim>\<open>zsetPools\<close> with the results of \<^verbatim>\<open>NewSet()\<close>.
\<close>

definition init_collection :: "types_pools \<Rightarrow> types_pools" where
  "init_collection st =
     st \<lparr> collectionPools := Put_times 10 (Collection_ptr NewCollection) (collectionPools st) \<rparr>"

definition init_number :: "types_pools \<Rightarrow> types_pools" where
  "init_number st =
     st \<lparr> numberPools := Put_times 10 (Number_ptr (NewNumber 0)) (numberPools st) \<rparr>"

definition init_set :: "types_pools \<Rightarrow> types_pools" where
  "init_set st = st \<lparr> zsetPools := Put_times 10 (Set_ptr NewSet) (zsetPools st) \<rparr>"

definition init_table :: "types_pools \<Rightarrow> types_pools" where
  "init_table st = st \<lparr> tablePools := Put_times 10 (Table_ptr NewTable) (tablePools st) \<rparr>"

definition init_text :: "types_pools \<Rightarrow> types_pools" where
  "init_text st = st \<lparr> textPools := Put_times 10 (Text_ptr (NewText [])) (textPools st) \<rparr>"

definition init_zset :: "types_pools \<Rightarrow> types_pools" where
  "init_zset st = st \<lparr> zsetPools := Put_times 10 (ZSet_ptr NewZSet) (zsetPools st) \<rparr>"

text \<open>Package initialisation runs the \<^verbatim>\<open>init\<close> functions in the order of the file names.\<close>

definition types_init :: types_pools where
  "types_init =
     init_zset (init_text (init_table (init_set (init_number (init_collection no_pools)))))"

text \<open>
  A failed type assertion \<^verbatim>\<open>x.(*T)\<close> panics; \<^verbatim>\<open>AcquireZSet\<close> returns the panic, or the
  \<^verbatim>\<open>*ZSet\<close> and the pools after the \<^verbatim>\<open>Get\<close>. The other five \<^verbatim>\<open>Acquire\<close> functions
  are written the same way, each on its own pool.
\<close>

datatype panic = interface_conversion any

definition AcquireZSet :: "nat option \<Rightarrow> types_pools \<Rightarrow> panic + types_ZSet \<times> types_pools" where
  "AcquireZSet pick st =
     (case Pool_Get (ZSet_ptr NewZSet) pick (zsetPools st) of
        (ZSet_ptr z, pool) \<Rightarrow> Inr (z, st \<lparr> zsetPools := pool \<rparr>)
      | (v, pool) \<Rightarrow> Inl (interface_conversion v))"

definition ZSet_ReleaseToPool :: "types_ZSet \<Rightarrow> types_pools \<Rightarrow> types_pools" where
  "ZSet_ReleaseToPool z st =
     st \<lparr> zsetPools := Pool_Put (zsetPools st) (ZSet_ptr (ZSet_Clear z)) \<rparr>"

definition AcquireSet :: "nat option \<Rightarrow> types_pools \<Rightarrow> panic + types_Set \<times> types_pools" where
  "AcquireSet pick st =
     (case Pool_Get (Set_ptr NewSet) pick (setPools st) of
        (Set_ptr s, pool) \<Rightarrow> Inr (s, st \<lparr> setPools := pool \<rparr>)
      | (v, pool) \<Rightarrow> Inl (interface_conversion v))"

definition Set_ReleaseToPool :: "types_Set \<Rightarrow> types_pools \<Rightarrow> types_pools" where
  "Set_ReleaseToPool s st =
     st \<lparr> setPools := Pool_Put (setPools st) (Set_ptr (Set_Clear s)) \<rparr>"

definition AcquireText :: "nat option \<Rightarrow> types_pools \<Rightarrow> panic + types_Text \<times> types_pools" where
  "AcquireText pick st =
     (case Pool_Get (Text_ptr (NewText [])) pick (textPools st) of
        (Text_ptr text, pool) \<Rightarrow> Inr (text, st \<lparr> textPools := pool \<rparr>)
      | (v, pool) \<Rightarrow> Inl (interface_conversion v))"

definition Text_ReleaseToPool :: "types_Text \<Rightarrow> types_pools \<Rightarrow> types_pools" where
  "Text_ReleaseToPool text st =
     st \<lparr> textPools := Pool_Put (textPools st) (Text_ptr (Text_Clear text)) \<rparr>"

definition AcquireTable :: "nat option \<Rightarrow> types_pools \<Rightarrow> panic + types_Table \<times> types_pools" where
  "AcquireTable pick st =
     (case Pool_Get (Table_ptr NewTable) pick (tablePools st) of
        (Table_ptr tab, pool) \<Rightarrow> Inr (tab, st \<lparr> tablePools := pool \<rparr>)
      | (v, pool) \<Rightarrow> Inl (interface_conversion v))"

definition Table_ReleaseToPool :: "types_Table \<Rightarrow> types_pools \<Rightarrow> types_pools" where
  "Table_ReleaseToPool tab st =
     st \<lparr> tablePools := Pool_Put (tablePools st) (Table_ptr (Table_Clear tab)) \<rparr>"

definition AcquireNumber ::
  "nat option \<Rightarrow> types_pools \<Rightarrow> panic + types_Number \<times> types_pools" where
  "AcquireNumber pick st =
     (case Pool_Get (Number_ptr (NewNumber 0)) pick (numberPools st) of
        (Number_ptr num, pool) \<Rightarrow> Inr (num, st \<lparr> numberPools := pool \<rparr>)
      | (v, pool) \<Rightarrow> Inl (interface_conversion v))"

definition Number_ReleaseToPool :: "types_Number \<Rightarrow> types_pools \<Rightarrow> types_pools" where
  "Number_ReleaseToPool num st =
     st \<lparr> numberPools := Pool_Put (numberPools st) (Number_ptr (Number_Clear num)) \<rparr>"

definition AcquireCollection ::
  "nat option \<Rightarrow> types_pools \<Rightarrow> panic + types_Collection \<times> types_pools" where
  "AcquireCollection pick st =
     (case Pool_Get (Collection_ptr NewCollection) pick (collectionPools st) of
        (Collection_ptr cle, pool) \<Rightarrow> Inr (cle, st \<lparr> collectionPools := pool \<rparr>)
      | (v, pool) \<Rightarrow> Inl (interface_conversion v))"

definition Collection_ReleaseToPool :: "types_Collection \<Rightarrow> types_pools \<Rightarrow> types_pools" where
  "Collection_ReleaseToPool cle st =
     st \<lparr> collectionPools :=
            Pool_Put (collectionPools st) (Collection_ptr (Collection_Clear cle)) \<rparr>"

section \<open>package vfs: the segment\<close>

text \<open>
  \<^verbatim>\<open>type Kind int8\<close> with its seven constants. A \<^verbatim>\<open>Kind\<close> read from elsewhere can be
  any \<^verbatim>\<open>int8\<close>.
\<close>

type_synonym Kind = "8 word"

definition Set :: Kind where "Set = 0"
definition ZSet :: Kind where "ZSet = 1"
definition Text :: Kind where "Text = 2"
definition Table :: Kind where "Table = 3"
definition Number :: Kind where "Number = 4"
definition Unknown :: Kind where "Unknown = 5"
definition Collection :: Kind where "Collection = 6"

record Segment =
  Tombstone :: "8 word"
  Type :: Kind
  ExpiredAt :: "64 word"
  CreatedAt :: "64 word"
  KeySize :: "32 word"
  ValueSize :: "32 word"
  Key :: bytes
  Value :: bytes

text \<open>The conversion \<^verbatim>\<open>[]byte(key)\<close> and back.\<close>

definition bytes_of :: "string \<Rightarrow> bytes" where
  "bytes_of s = map (\<lambda>c. word_of_nat (of_char c)) s"

definition string_of :: "bytes \<Rightarrow> string" where
  "string_of bs = map (\<lambda>b. char_of (unat b)) bs"

text \<open>
  \<^verbatim>\<open>transformer.Encode\<close> belongs to a file of the package that is not among the sources:
  it is the parameter \<open>Encode\<close>.

  The clock. \<^verbatim>\<open>uint64(time.Now().UnixNano())\<close> is a parameter, one for each call of
  \<^verbatim>\<open>time.Now()\<close>, in the order of the calls. \<^verbatim>\<open>time.Duration(ttl)\<close> converts the
  \<^verbatim>\<open>uint64\<close> to an \<^verbatim>\<open>int64\<close> and keeps the bits; \<^verbatim>\<open>time.Second\<close> is \<open>10\<^sup>9\<close>; the
  product wraps. \<^verbatim>\<open>t.Add(d).UnixNano()\<close> is the nanosecond count of \<open>t\<close> plus \<open>d\<close>,
  wrapped to 64 bits: for a reading of the present clock and a \<open>d\<close> of at most
  \<open>2\<^sup>6\<^sup>3\<close> nanoseconds \<^verbatim>\<open>Add\<close> does not saturate, and \<^verbatim>\<open>UnixNano\<close> multiplies and adds in
  \<^verbatim>\<open>int64\<close>.
\<close>

definition Duration :: "64 word \<Rightarrow> 64 word" where
  "Duration ttl = ttl"

definition Second :: "64 word" where
  "Second = 1000000000"

definition Add_UnixNano :: "64 word \<Rightarrow> 64 word \<Rightarrow> 64 word" where
  "Add_UnixNano now d = now + d"

fun toKind :: "Serializable \<Rightarrow> Kind" where
  "toKind (Set_ptr _) = Set"
| "toKind (ZSet_ptr _) = ZSet"
| "toKind (Text_ptr _) = Text"
| "toKind (Table_ptr _) = Table"
| "toKind (Number_ptr _) = Number"
| "toKind (Collection_ptr _) = Collection"
| "toKind (other_type _) = Unknown"

definition NewSegment ::
  "(bytes \<Rightarrow> error + bytes) \<Rightarrow> msgpack \<Rightarrow> 64 word \<Rightarrow> 64 word \<Rightarrow>
     string \<Rightarrow> Serializable \<Rightarrow> 64 word \<Rightarrow> error + Segment" where
  "NewSegment Encode mp now0 now1 key data ttl =
     (let timestamp = now0;
          expiredAt = (if ttl > 0 then Add_UnixNano now1 (Second * Duration ttl) else 0)
      in case ToBytes mp data of
           Inl err \<Rightarrow> Inl err
         | Inr bs \<Rightarrow>
             (case Encode bs of
                Inl err \<Rightarrow> Inl (fmt_Errorf_w ''transformer encode: '' err)
              | Inr encodedata \<Rightarrow>
                  Inr \<lparr> Tombstone = 0, Type = toKind data, ExpiredAt = expiredAt,
                        CreatedAt = timestamp, KeySize = word_of_nat (length key),
                        ValueSize = word_of_nat (length encodedata),
                        Key = bytes_of key, Value = encodedata \<rparr>))"

definition NewTombstoneSegment :: "64 word \<Rightarrow> string \<Rightarrow> Segment" where
  "NewTombstoneSegment now0 key =
     (let timestamp = now0; expiredAt = 0
      in \<lparr> Tombstone = 1, Type = Unknown, ExpiredAt = expiredAt, CreatedAt = timestamp,
           KeySize = word_of_nat (length key), ValueSize = 0,
           Key = bytes_of key, Value = [] \<rparr>)"

definition IsTombstone :: "Segment \<Rightarrow> bool" where
  "IsTombstone s \<longleftrightarrow> Tombstone s = 1"

text \<open>
  The typed conversions of the older copy of the file, which declare the result with
  \<^verbatim>\<open>var\<close>: the result starts as the zero value, so its \<^verbatim>\<open>TTL\<close> is 0 and \<^verbatim>\<open>Unmarshal\<close>
  decodes into the zero value of the content. The conversions of the newer copy, which
  the handlers of the server call, follow below as \<open>ToSet_pooled\<close> and so on.
\<close>

definition ToSet :: "msgpack \<Rightarrow> Segment \<Rightarrow> error + types_Set" where
  "ToSet mp s =
     (if Type s \<noteq> Set then Inl (fmt_Errorf ''not support conversion to set type'')
      else case Unmarshal_set mp (Value s) Map.empty of
             Inl err \<Rightarrow> Inl err
           | Inr m \<Rightarrow> Inr \<lparr> Set_Set = m, Set_TTL = 0 \<rparr>)"

definition ToZSet :: "msgpack \<Rightarrow> Segment \<Rightarrow> error + types_ZSet" where
  "ToZSet mp s =
     (if Type s \<noteq> ZSet then Inl (fmt_Errorf ''not support conversion to zset type'')
      else case Unmarshal_zset mp (Value s) Map.empty of
             Inl err \<Rightarrow> Inl err
           | Inr m \<Rightarrow> Inr \<lparr> ZSet_ZSet = m, ZSet_TTL = 0, ZSet_sortedScores = [] \<rparr>)"

definition ToText :: "msgpack \<Rightarrow> Segment \<Rightarrow> error + types_Text" where
  "ToText mp s =
     (if Type s \<noteq> Text then Inl (fmt_Errorf ''not support conversion to text type'')
      else case Unmarshal_text mp (Value s) [] of
             Inl err \<Rightarrow> Inl err
           | Inr c \<Rightarrow> Inr \<lparr> Text_Content = c, Text_TTL = 0 \<rparr>)"

definition ToCollection :: "msgpack \<Rightarrow> Segment \<Rightarrow> error + types_Collection" where
  "ToCollection mp s =
     (if Type s \<noteq> Collection
      then Inl (fmt_Errorf ''not support conversion to collection type'')
      else case Unmarshal_collection mp (Value s) None of
             Inl err \<Rightarrow> Inl err
           | Inr xs \<Rightarrow> Inr \<lparr> Collection_Collection = xs, Collection_TTL = 0 \<rparr>)"

definition ToTable :: "msgpack \<Rightarrow> Segment \<Rightarrow> error + types_Table" where
  "ToTable mp s =
     (if Type s \<noteq> Table then Inl (fmt_Errorf ''not support conversion to table type'')
      else case Unmarshal_table mp (Value s) Map.empty of
             Inl err \<Rightarrow> Inl err
           | Inr m \<Rightarrow> Inr \<lparr> Table_Table = m, Table_TTL = 0 \<rparr>)"

definition ToNumber :: "msgpack \<Rightarrow> Segment \<Rightarrow> error + types_Number" where
  "ToNumber mp s =
     (if Type s \<noteq> Number then Inl (fmt_Errorf ''not support conversion to number type'')
      else case Unmarshal_number mp (Value s) 0 of
             Inl err \<Rightarrow> Inl err
           | Inr v \<Rightarrow> Inr \<lparr> Number_Value = v, Number_TTL = 0 \<rparr>)"

text \<open>
  \<^verbatim>\<open>TTL\<close>: \<open>now\<close> is \<^verbatim>\<open>uint64(time.Now().UnixNano())\<close>. The difference is converted to
  \<^verbatim>\<open>int64\<close> (the same bits, read as two's complement) and divided by
  \<^verbatim>\<open>int64(time.Second)\<close>; Go's division truncates towards zero.
\<close>

definition Segment_TTL :: "64 word \<Rightarrow> Segment \<Rightarrow> 64 word" where
  "Segment_TTL now s =
     (if ExpiredAt s > 0 \<and> ExpiredAt s > now
      then word_of_int (sint (ExpiredAt s - now) sdiv sint Second)
      else - 1)"

subsection \<open>The segment pool\<close>

text \<open>\<^verbatim>\<open>new(Segment)\<close>: every field is the zero value.\<close>

definition new_Segment :: Segment where
  "new_Segment = \<lparr> Tombstone = 0, Type = 0, ExpiredAt = 0, CreatedAt = 0, KeySize = 0,
                    ValueSize = 0, Key = [], Value = [] \<rparr>"

definition segmentPool_init :: "Segment list" where
  "segmentPool_init = Put_times 100 new_Segment []"

definition Segment_Clear :: "Segment \<Rightarrow> Segment" where
  "Segment_Clear s =
     s \<lparr> Key := [], Value := [], KeySize := 0, CreatedAt := 0, ExpiredAt := 0,
         ValueSize := 0, Tombstone := 0 \<rparr>"

definition Segment_ReleaseToPool :: "Segment \<Rightarrow> Segment list \<Rightarrow> Segment list" where
  "Segment_ReleaseToPool seg segmentPool = Pool_Put segmentPool (Segment_Clear seg)"

text \<open>
  \<^verbatim>\<open>AcquirePoolSegment\<close> returns its result and the pool it leaves. \<open>pick\<close> is the
  choice of \<^verbatim>\<open>segmentPool.Get()\<close>.
\<close>

definition AcquirePoolSegment ::
  "(bytes \<Rightarrow> error + bytes) \<Rightarrow> msgpack \<Rightarrow> 64 word \<Rightarrow> 64 word \<Rightarrow> nat option \<Rightarrow>
     string \<Rightarrow> Serializable \<Rightarrow> 64 word \<Rightarrow> Segment list \<Rightarrow> (error + Segment) \<times> Segment list" where
  "AcquirePoolSegment Encode mp now0 now1 pick key data ttl segmentPool =
     (case Pool_Get new_Segment pick segmentPool of
        (seg, pool) \<Rightarrow>
          (let timestamp = now0;
               expiredAt = (if ttl > 0 then Add_UnixNano now1 (Second * Duration ttl) else 0)
           in case ToBytes mp data of
                Inl err \<Rightarrow> (Inl err, Segment_ReleaseToPool seg pool)
              | Inr bs \<Rightarrow>
                  (case Encode bs of
                     Inl err \<Rightarrow>
                       (Inl (fmt_Errorf_w ''transformer encode: '' err),
                        Segment_ReleaseToPool seg pool)
                   | Inr encodedata \<Rightarrow>
                       (Inr (seg \<lparr> Type := toKind data, Tombstone := 0, CreatedAt := timestamp,
                                   ExpiredAt := expiredAt, KeySize := word_of_nat (length key),
                                   ValueSize := word_of_nat (length encodedata),
                                   Key := bytes_of key, Value := encodedata \<rparr>),
                        pool))))"

subsection \<open>The typed conversions of the newer copy\<close>

text \<open>
  The conversions that the handlers of the server call take their result from the pools
  of package types: a Kind that does not match returns the error and leaves the pools;
  otherwise the result is acquired, which panics where the type assertion of the
  \<^verbatim>\<open>Acquire\<close> function fails; \<^verbatim>\<open>Unmarshal\<close> decodes into the content of the acquired
  value; on an error the value is released to its pool. Each function returns the panic,
  or its result with the pools it leaves. \<open>pick\<close> is the choice of the pool's \<^verbatim>\<open>Get\<close>.
\<close>

definition ToSet_pooled ::
  "nat option \<Rightarrow> msgpack \<Rightarrow> Segment \<Rightarrow> types_pools \<Rightarrow>
     panic + (error + types_Set) \<times> types_pools" where
  "ToSet_pooled pick mp s st =
     (if Type s \<noteq> Set then Inr (Inl (fmt_Errorf ''not support conversion to set type''), st)
      else case AcquireSet pick st of
             Inl p \<Rightarrow> Inl p
           | Inr (set', st1) \<Rightarrow>
               (case Unmarshal_set mp (Value s) (Set_Set set') of
                  Inl err \<Rightarrow> Inr (Inl err, Set_ReleaseToPool set' st1)
                | Inr m \<Rightarrow> Inr (Inr (set' \<lparr> Set_Set := m \<rparr>), st1)))"

definition ToZSet_pooled ::
  "nat option \<Rightarrow> msgpack \<Rightarrow> Segment \<Rightarrow> types_pools \<Rightarrow>
     panic + (error + types_ZSet) \<times> types_pools" where
  "ToZSet_pooled pick mp s st =
     (if Type s \<noteq> ZSet then Inr (Inl (fmt_Errorf ''not support conversion to zset type''), st)
      else case AcquireZSet pick st of
             Inl p \<Rightarrow> Inl p
           | Inr (zset, st1) \<Rightarrow>
               (case Unmarshal_zset mp (Value s) (ZSet_ZSet zset) of
                  Inl err \<Rightarrow> Inr (Inl err, ZSet_ReleaseToPool zset st1)
                | Inr m \<Rightarrow> Inr (Inr (zset \<lparr> ZSet_ZSet := m \<rparr>), st1)))"

definition ToText_pooled ::
  "nat option \<Rightarrow> msgpack \<Rightarrow> Segment \<Rightarrow> types_pools \<Rightarrow>
     panic + (error + types_Text) \<times> types_pools" where
  "ToText_pooled pick mp s st =
     (if Type s \<noteq> Text then Inr (Inl (fmt_Errorf ''not support conversion to text type''), st)
      else case AcquireText pick st of
             Inl p \<Rightarrow> Inl p
           | Inr (text, st1) \<Rightarrow>
               (case Unmarshal_text mp (Value s) (Text_Content text) of
                  Inl err \<Rightarrow> Inr (Inl err, Text_ReleaseToPool text st1)
                | Inr c \<Rightarrow> Inr (Inr (text \<lparr> Text_Content := c \<rparr>), st1)))"

definition ToCollection_pooled ::
  "nat option \<Rightarrow> msgpack \<Rightarrow> Segment \<Rightarrow> types_pools \<Rightarrow>
     panic + (error + types_Collection) \<times> types_pools" where
  "ToCollection_pooled pick mp s st =
     (if Type s \<noteq> Collection
      then Inr (Inl (fmt_Errorf ''not support conversion to collection type''), st)
      else case AcquireCollection pick st of
             Inl p \<Rightarrow> Inl p
           | Inr (collection, st1) \<Rightarrow>
               (case Unmarshal_collection mp (Value s) (Collection_Collection collection) of
                  Inl err \<Rightarrow> Inr (Inl err, Collection_ReleaseToPool collection st1)
                | Inr xs \<Rightarrow> Inr (Inr (collection \<lparr> Collection_Collection := xs \<rparr>), st1)))"

definition ToTable_pooled ::
  "nat option \<Rightarrow> msgpack \<Rightarrow> Segment \<Rightarrow> types_pools \<Rightarrow>
     panic + (error + types_Table) \<times> types_pools" where
  "ToTable_pooled pick mp s st =
     (if Type s \<noteq> Table then Inr (Inl (fmt_Errorf ''not support conversion to table type''), st)
      else case AcquireTable pick st of
             Inl p \<Rightarrow> Inl p
           | Inr (table, st1) \<Rightarrow>
               (case Unmarshal_table mp (Value s) (Table_Table table) of
                  Inl err \<Rightarrow> Inr (Inl err, Table_ReleaseToPool table st1)
                | Inr m \<Rightarrow> Inr (Inr (table \<lparr> Table_Table := m \<rparr>), st1)))"

definition ToNumber_pooled ::
  "nat option \<Rightarrow> msgpack \<Rightarrow> Segment \<Rightarrow> types_pools \<Rightarrow>
     panic + (error + types_Number) \<times> types_pools" where
  "ToNumber_pooled pick mp s st =
     (if Type s \<noteq> Number
      then Inr (Inl (fmt_Errorf ''not support conversion to number type''), st)
      else case AcquireNumber pick st of
             Inl p \<Rightarrow> Inl p
           | Inr (number, st1) \<Rightarrow>
               (case Unmarshal_number mp (Value s) (Number_Value number) of
                  Inl err \<Rightarrow> Inr (Inl err, Number_ReleaseToPool number st1)
                | Inr v \<Rightarrow> Inr (Inr (number \<lparr> Number_Value := v \<rparr>), st1)))"

section \<open>The record codec and the engine's Delete\<close>

text \<open>
  The functions of package vfs that write a record to a file, read it back and delete a
  key are in a file that is not among the sources. What follows is written from the
  specification (sections 3, 4.1 and 4.5).
\<close>

text \<open>Modelled from the spec: "all multi-byte integers are big-endian", at 4 and 8 bytes.\<close>

definition be32 :: "32 word \<Rightarrow> bytes" where
  "be32 w = [ucast (drop_bit 24 w), ucast (drop_bit 16 w), ucast (drop_bit 8 w), ucast w]"

definition be64 :: "64 word \<Rightarrow> bytes" where
  "be64 w = [ucast (drop_bit 56 w), ucast (drop_bit 48 w), ucast (drop_bit 40 w),
             ucast (drop_bit 32 w), ucast (drop_bit 24 w), ucast (drop_bit 16 w),
             ucast (drop_bit 8 w), ucast w]"

definition from_be :: "bytes \<Rightarrow> 'a::len word" where
  "from_be bs = foldl (\<lambda>acc b. push_bit 8 acc OR ucast b) 0 bs"

text \<open>
  Modelled from the spec: "IEEE CRC32", the reflected polynomial \<open>0xEDB88320\<close>, bit by
  bit, with the initial value and the final complement.
\<close>

fun crc_bits :: "nat \<Rightarrow> 32 word \<Rightarrow> 32 word" where
  "crc_bits 0 c = c"
| "crc_bits (Suc n) c =
     crc_bits n (if bit c 0 then drop_bit 1 c XOR 0xEDB88320 else drop_bit 1 c)"

definition crc_update :: "32 word \<Rightarrow> byte \<Rightarrow> 32 word" where
  "crc_update c b = crc_bits 8 (c XOR ucast b)"

definition crc32 :: "bytes \<Rightarrow> 32 word" where
  "crc32 bs = NOT (foldl crc_update (NOT 0) bs)"

text \<open>
  Modelled from the spec: the 26-byte header, "fields, authoritative order": Tombstone
  (1 byte), Kind (1), ExpiresAt (8), CreatedAt (8), KeySize (4), ValueSize (4).
\<close>

definition header :: "Segment \<Rightarrow> bytes" where
  "header r =
     [Tombstone r, Type r] @ be64 (ExpiredAt r) @ be64 (CreatedAt r) @
     be32 (KeySize r) @ be32 (ValueSize r)"

text \<open>
  Modelled from the spec: "frame serializes header fields in the order and widths of
  section 3, appends key and value, appends CRC32 computed over the concatenation of all
  prior bytes."
\<close>

definition frame :: "Segment \<Rightarrow> bytes" where
  "frame r = (let prior = header r @ Key r @ Value r in prior @ be32 (crc32 prior))"

datatype codec_error = ShortRead | Corrupt

text \<open>
  Modelled from the spec: "parse reads the 26-byte header, then KeySize+ValueSize body,
  then the trailing CRC32, and fails with Corrupt if CRC mismatches", and "fails with
  ShortRead when fewer than needed bytes remain in the stream". The result is the record
  and the rest of the stream.
\<close>

definition parse :: "bytes \<Rightarrow> codec_error + Segment \<times> bytes" where
  "parse stream =
     (if length stream < 26 then Inl ShortRead
      else
        let h = take 26 stream;
            after_header = drop 26 stream;
            ksize = (from_be (take 4 (drop 18 h)) :: 32 word);
            vsize = (from_be (take 4 (drop 22 h)) :: 32 word);
            n = unat ksize + unat vsize
        in if length after_header < n + 4 then Inl ShortRead
           else
             let body = take n after_header;
                 crc = (from_be (take 4 (drop n after_header)) :: 32 word)
             in if crc \<noteq> crc32 (h @ body) then Inl Corrupt
                else Inr (\<lparr> Tombstone = h ! 0, Type = h ! 1,
                            ExpiredAt = from_be (take 8 (drop 2 h)),
                            CreatedAt = from_be (take 8 (drop 10 h)),
                            KeySize = ksize, ValueSize = vsize,
                            Key = take (unat ksize) body,
                            Value = drop (unat ksize) body \<rparr>,
                          drop (n + 4) after_header))"

text \<open>
  Modelled from the spec: the size limits of the data model, "KeySize: length of Key in
  bytes" and "ValueSize: length of the post-transform Value in bytes", each in 4 bytes.
\<close>

definition meets_size_limits :: "Segment \<Rightarrow> bool" where
  "meets_size_limits r \<longleftrightarrow>
     unat (KeySize r) = length (Key r) \<and> unat (ValueSize r) = length (Value r)"

text \<open>
  Modelled from the spec: the engine as its log (the records appended, oldest first) and
  its in-memory index from a key to the entry of its newest live record. "Delete(key)
  always writes a tombstone record for the key (even if the key is not present) ...
  Removes the index entry if present."
\<close>

record 'entry engine =
  records :: "Segment list"
  index :: "bytes \<rightharpoonup> 'entry"

definition Delete :: "64 word \<Rightarrow> string \<Rightarrow> 'entry engine \<Rightarrow> 'entry engine" where
  "Delete now0 key e =
     e \<lparr> records := records e @ [NewTombstoneSegment now0 key],
         index := (index e)(bytes_of key := None) \<rparr>"

section \<open>Concrete inputs\<close>

text \<open>
  An instance of the msgpack parameter for the examples: texts shorter than 32 bytes in
  msgpack's \<^verbatim>\<open>fixstr\<close> format (the byte \<open>0xa0 + length\<close>, then the bytes of the text);
  everything else is refused.
\<close>

definition fixstr_Marshal :: "string \<Rightarrow> error + bytes" where
  "fixstr_Marshal s =
     (if length s < 32 then Inr (word_of_nat (160 + length s) # bytes_of s)
      else Inl (library_error 0))"

definition fixstr_Unmarshal :: "bytes \<Rightarrow> error + string" where
  "fixstr_Unmarshal bs =
     (case bs of
        [] \<Rightarrow> Inl (library_error 1)
      | b # rest \<Rightarrow>
          if 160 \<le> unat b \<and> unat b < 192 \<and> length rest = unat b - 160
          then Inr (string_of rest) else Inl (library_error 1))"

definition fixstr_msgpack :: msgpack where
  "fixstr_msgpack =
     \<lparr> Marshal_set = (\<lambda>_. Inl (library_error 0)),
       Marshal_zset = (\<lambda>_. Inl (library_error 0)),
       Marshal_text = fixstr_Marshal,
       Marshal_table = (\<lambda>_. Inl (library_error 0)),
       Marshal_number = (\<lambda>_. Inl (library_error 0)),
       Marshal_collection = (\<lambda>_. Inl (library_error 0)),
       Unmarshal_set = (\<lambda>_ _. Inl (library_error 1)),
       Unmarshal_zset = (\<lambda>_ _. Inl (library_error 1)),
       Unmarshal_text = (\<lambda>bs _. fixstr_Unmarshal bs),
       Unmarshal_table = (\<lambda>_ _. Inl (library_error 1)),
       Unmarshal_number = (\<lambda>_ _. Inl (library_error 1)),
       Unmarshal_collection = (\<lambda>_ _. Inl (library_error 1)) \<rparr>"

text \<open>The transformer with compression and encryption disabled.\<close>

definition no_transform :: "bytes \<Rightarrow> error + bytes" where
  "no_transform bs = Inr bs"

text \<open>
  The record of the text \<open>v\<close> under the key \<open>k\<close>, written when the clock reads
  \<open>1700000000000000000\<close> with a ttl of 5 seconds.
\<close>

definition text_segment :: Segment where
  "text_segment =
     \<lparr> Tombstone = 0, Type = Text, ExpiredAt = 1700000005000000000,
       CreatedAt = 1700000000000000000, KeySize = 1, ValueSize = 2,
       Key = [107], Value = [161, 118] \<rparr>"

section \<open>Configuration validation\<close>

lemma valid_lengths:
  "map_index_bool valid n \<longleftrightarrow> n = 16 \<or> n = 24 \<or> n = 32"
  by (simp add: map_index_bool_def valid_def)

lemma validateEncryptor_nil:
  "validateEncryptor e = None \<longleftrightarrow>
     (\<not> Encryptor_Enable e \<or> length (Encryptor_Secret e) \<in> {16, 24, 32})"
  by (auto simp: validateEncryptor_def valid_lengths)

lemma validatePort_nil: "validatePort p = None \<longleftrightarrow> 1025 \<le> p \<and> p \<le> 65534"
  by (auto simp: validatePort_def)

text \<open>
  C7. \<^verbatim>\<open>Vaildated(opt)\<close> returns \<^verbatim>\<open>nil\<close> exactly when the port is in 1025..65534, the
  path and the password are non-empty, and the encryptor is disabled or its secret is
  16, 24 or 32 bytes long; in every other case it returns an error.
\<close>

theorem Vaildated_nil_iff:
  "Vaildated opt = None \<longleftrightarrow>
     (1025 \<le> Port opt \<and> Port opt \<le> 65534 \<and> Path opt \<noteq> '''' \<and> Password opt \<noteq> '''' \<and>
      (\<not> Encryptor_Enable (Encryptor opt) \<or>
       length (Encryptor_Secret (Encryptor opt)) \<in> {16, 24, 32}))"
proof -
  have "Vaildated opt = None \<longleftrightarrow>
      validatePort (Port opt) = None \<and> validatePath (Path opt) = None \<and>
      validatePassword (Password opt) = None \<and> validateEncryptor (Encryptor opt) = None"
    by (simp add: Vaildated_def split: option.splits)
  then show ?thesis
    by (simp add: validatePort_nil validateEncryptor_nil validatePath_def validatePassword_def)
qed

theorem Vaildated_nil_iff_witness:
  "Vaildated default_options = None \<and>
   Vaildated (default_options \<lparr> Port := 80 \<rparr>) \<noteq> None \<and>
   Vaildated (default_options \<lparr> Encryptor :=
       \<lparr> Encryptor_Enable = True, Encryptor_Secret = ''short'' \<rparr> \<rparr>) \<noteq> None"
  using Vaildated_nil_iff [of default_options]
    Vaildated_nil_iff [of "default_options \<lparr> Port := 80 \<rparr>"]
    Vaildated_nil_iff [of "default_options \<lparr> Encryptor :=
       \<lparr> Encryptor_Enable = True, Encryptor_Secret = ''short'' \<rparr> \<rparr>"]
  by (simp add: default_options_def)

section \<open>The record codec\<close>

lemma from_be_be32: "from_be (be32 w) = w"
proof (rule bit_word_eqI)
  fix n assume "n < LENGTH(32)"
  then show "bit (from_be (be32 w) :: 32 word) n = bit w n"
    by (simp add: from_be_def be32_def bit_simps cong: conj_cong) arith
qed

lemma from_be_be64: "from_be (be64 w) = w"
proof (rule bit_word_eqI)
  fix n assume "n < LENGTH(64)"
  then have "n < 8 \<or> (8 \<le> n \<and> n < 16) \<or> (16 \<le> n \<and> n < 24) \<or> (24 \<le> n \<and> n < 32) \<or>
      (32 \<le> n \<and> n < 40) \<or> (40 \<le> n \<and> n < 48) \<or> (48 \<le> n \<and> n < 56) \<or> (56 \<le> n \<and> n < 64)"
    by simp arith
  then show "bit (from_be (be64 w) :: 64 word) n = bit w n"
    by (elim disjE) (auto simp add: from_be_def be64_def bit_simps)
qed

lemma length_be32: "length (be32 w) = 4"
  by (simp add: be32_def)

lemma length_be64: "length (be64 w) = 8"
  by (simp add: be64_def)

lemma length_header: "length (header r) = 26"
  by (simp add: header_def length_be32 length_be64)

lemma header_fields:
  "header r ! 0 = Tombstone r" "header r ! 1 = Type r"
  "take 8 (drop 2 (header r)) = be64 (ExpiredAt r)"
  "take 8 (drop 10 (header r)) = be64 (CreatedAt r)"
  "take 4 (drop 18 (header r)) = be32 (KeySize r)"
  "take 4 (drop 22 (header r)) = be32 (ValueSize r)"
  by (simp_all add: header_def length_be32 length_be64 nth_append)

text \<open>
  A stream that starts with the header, the key and the value of a record and four more
  bytes parses to that record when the four bytes are the checksum of what precedes
  them, and is \<open>Corrupt\<close> otherwise.
\<close>

lemma parse_header_body:
  assumes "meets_size_limits r"
  shows "parse (header r @ Key r @ Value r @ be32 c @ rest) =
           (if c = crc32 (header r @ Key r @ Value r) then Inr (r, rest) else Inl Corrupt)"
proof -
  let ?h = "header r"
  let ?tail = "Key r @ Value r @ be32 c @ rest"
  have k: "unat (KeySize r) = length (Key r)" and v: "unat (ValueSize r) = length (Value r)"
    using assms by (simp_all add: meets_size_limits_def)
  have h: "take 26 (?h @ ?tail) = ?h" and t: "drop 26 (?h @ ?tail) = ?tail"
    by (simp_all add: length_header)
  have len: "\<not> length (?h @ ?tail) < 26"
    by (simp add: length_header)
  have body: "take (length (Key r) + length (Value r)) ?tail = Key r @ Value r"
    by simp
  have crc: "take 4 (drop (length (Key r) + length (Value r)) ?tail) = be32 c"
    by (simp add: length_be32)
  have rest: "drop (length (Key r) + length (Value r) + 4) ?tail = rest"
    by (simp add: length_be32)
  have enough: "\<not> length ?tail < length (Key r) + length (Value r) + 4"
    by (simp add: length_be32)
  show ?thesis
    unfolding parse_def Let_def h t
    using len enough
    by (simp only: header_fields from_be_be32 from_be_be64 k v body crc rest if_False
        append_assoc take_append drop_append)
      (simp add: length_be32 length_header from_be_be32)
qed

lemma parse_short_header: "length stream < 26 \<Longrightarrow> parse stream = Inl ShortRead"
  by (simp add: parse_def)

text \<open>
  C1. For every record that meets the size limits of the data model, parsing its framed
  encoding returns the record unchanged, and leaves the rest of the stream.
\<close>

theorem parse_frame:
  assumes "meets_size_limits r"
  shows "parse (frame r @ rest) = Inr (r, rest)"
  using parse_header_body [OF assms, of "crc32 (header r @ Key r @ Value r)" rest]
  by (simp add: frame_def Let_def)

theorem parse_frame_witness:
  "meets_size_limits text_segment \<and> parse (frame text_segment) = Inr (text_segment, [])"
  using parse_frame [of text_segment "[]"]
  by (simp add: meets_size_limits_def text_segment_def)

text \<open>The check value of CRC-32: the checksum of the ASCII digits \<open>123456789\<close>.\<close>

lemma crc32_check_value:
  "crc32 [0x31, 0x32, 0x33, 0x34, 0x35, 0x36, 0x37, 0x38, 0x39] = 0xCBF43926"
  by code_simp

section \<open>The write path\<close>

lemmas Kind_defs = Set_def ZSet_def Text_def Table_def Number_def Unknown_def Collection_def

lemma NewSegment_Inr_iff:
  "NewSegment Encode mp now0 now1 key data ttl = Inr seg \<longleftrightarrow>
     (\<exists>bs encodedata. ToBytes mp data = Inr bs \<and> Encode bs = Inr encodedata \<and>
        seg = \<lparr> Tombstone = 0, Type = toKind data,
                ExpiredAt = (if ttl > 0 then Add_UnixNano now1 (Second * Duration ttl) else 0),
                CreatedAt = now0, KeySize = word_of_nat (length key),
                ValueSize = word_of_nat (length encodedata),
                Key = bytes_of key, Value = encodedata \<rparr>)"
  by (auto simp: NewSegment_def Let_def split: sum.splits)

lemma AcquirePoolSegment_result:
  "fst (AcquirePoolSegment Encode mp now0 now1 pick key data ttl pool) =
     NewSegment Encode mp now0 now1 key data ttl"
  by (simp add: AcquirePoolSegment_def NewSegment_def Let_def split: prod.splits sum.splits)

lemma unat_expiry:
  "unat (if ttl > 0 then Add_UnixNano now1 (Second * Duration ttl) else 0) =
     (if 0 < ttl then (unat now1 + unat ttl * 1000000000) mod 2 ^ 64 else 0)"
  by (simp add: Add_UnixNano_def Second_def Duration_def unat_word_ariths mod_add_right_eq
      mult.commute)

text \<open>
  C2, as amended. For every key, payload and ttl, the segment that \<^verbatim>\<open>NewSegment\<close> or
  \<^verbatim>\<open>AcquirePoolSegment\<close> constructs has \<^verbatim>\<open>ExpiredAt\<close> 0 when ttl is 0; when ttl is
  positive it is the clock's reading plus \<open>ttl * 10\<^sup>9\<close> nanoseconds as long as that sum
  is below \<open>2\<^sup>6\<^sup>4\<close>, and the sum modulo \<open>2\<^sup>6\<^sup>4\<close> otherwise.
\<close>

theorem write_path_ExpiredAt:
  assumes "NewSegment Encode mp now0 now1 key data ttl = Inr seg \<or>
           fst (AcquirePoolSegment Encode mp now0 now1 pick key data ttl pool) = Inr seg"
  shows "if ttl = 0 then ExpiredAt seg = 0
         else if unat now1 + unat ttl * 1000000000 < 2 ^ 64
              then unat (ExpiredAt seg) = unat now1 + unat ttl * 1000000000
              else unat (ExpiredAt seg) = (unat now1 + unat ttl * 1000000000) mod 2 ^ 64"
proof -
  from assms have "NewSegment Encode mp now0 now1 key data ttl = Inr seg"
    by (simp add: AcquirePoolSegment_result)
  then have e: "ExpiredAt seg = (if ttl > 0 then Add_UnixNano now1 (Second * Duration ttl) else 0)"
    by (auto simp: NewSegment_Inr_iff)
  have u: "unat (ExpiredAt seg) =
      (if 0 < ttl then (unat now1 + unat ttl * 1000000000) mod 2 ^ 64 else 0)"
    unfolding e by (rule unat_expiry)
  show ?thesis
  proof (cases "ttl = 0")
    case True
    with e show ?thesis by simp
  next
    case False
    then have "0 < ttl" by (simp add: word_greater_zero_iff)
    with u False show ?thesis by simp
  qed
qed

lemma NewSegment_text_segment: "NewSegment no_transform fixstr_msgpack 1700000000000000000 1700000000000000000
     ''k'' (Text_ptr (NewText ''v'')) 5 = Inr text_segment"
  by (simp add: NewSegment_def fixstr_msgpack_def fixstr_Marshal_def no_transform_def NewText_def
      text_segment_def bytes_of_def Add_UnixNano_def Second_def Duration_def Text_def)

theorem write_path_ExpiredAt_witness:
  "NewSegment no_transform fixstr_msgpack 1700000000000000000 1700000000000000000
     ''k'' (Text_ptr (NewText ''v'')) 5 = Inr text_segment \<and>
   unat (ExpiredAt text_segment) = 1700000000000000000 + 5 * 1000000000"
  using write_path_ExpiredAt [of no_transform fixstr_msgpack 1700000000000000000
      1700000000000000000 "''k''" "Text_ptr (NewText ''v'')" 5 text_segment]
    NewSegment_text_segment
  by simp

text \<open>
  With a ttl of \<open>2\<^sup>6\<^sup>4 - 1\<close> seconds the expiry is one second before the clock's reading,
  not \<open>ttl * 10\<^sup>9\<close> nanoseconds after it.
\<close>

theorem write_path_ExpiredAt_counterexample:
  "(case NewSegment no_transform fixstr_msgpack 1700000000000000000 1700000000000000000
     ''k'' (Text_ptr (NewText ''v'')) 18446744073709551615 of
       Inl err \<Rightarrow> False
     | Inr seg \<Rightarrow> unat (ExpiredAt seg) = 1699999999000000000 \<and>
          unat (ExpiredAt seg) \<noteq> 1700000000000000000 + 18446744073709551615 * 1000000000)"
  by (simp add: NewSegment_def fixstr_msgpack_def fixstr_Marshal_def no_transform_def NewText_def
      bytes_of_def Add_UnixNano_def Second_def Duration_def)


section \<open>The remaining time to live\<close>

lemma sint64_uint:
  "sint (w :: 64 word) =
     (if uint w < 9223372036854775808 then uint w else uint w - 18446744073709551616)"
proof -
  have u: "uint w = sint w mod 18446744073709551616"
    using uint_sint [of w] by (simp add: take_bit_eq_mod)
  have lo: "- 9223372036854775808 \<le> sint w" using sint_ge [of w] by simp
  have hi: "sint w < 9223372036854775808" using sint_lt [of w] by simp
  show ?thesis
  proof (cases "0 \<le> sint w")
    case True
    with hi have "sint w mod 18446744073709551616 = sint w"
      by (intro mod_pos_pos_trivial) linarith+
    with u hi show ?thesis by simp
  next
    case False
    have "sint w mod 18446744073709551616 = (sint w + 18446744073709551616) mod 18446744073709551616"
      by simp
    also have "\<dots> = sint w + 18446744073709551616"
      using lo False by (intro mod_pos_pos_trivial) linarith+
    finally have "uint w = sint w + 18446744073709551616" using u by simp
    with lo show ?thesis by simp
  qed
qed

lemma sint_word_of_int_64:
  "- 9223372036854775808 \<le> k \<Longrightarrow> k < 9223372036854775808 \<Longrightarrow> sint (word_of_int k :: 64 word) = k"
  by (simp add: sint_sbintrunc' signed_take_bit_int_eq_self)

lemma div_bounds:
  fixes d :: int
  assumes "0 \<le> d"
  shows "0 \<le> d div 1000000000" and "d div 1000000000 \<le> d"
  using assms by (simp_all add: pos_imp_zdiv_nonneg_iff)

text \<open>
  C3, as amended. \<^verbatim>\<open>s.TTL()\<close> returns -1 when the record has no expiry
  (\<^verbatim>\<open>ExpiredAt\<close> = 0) and when it is already expired (\<^verbatim>\<open>ExpiredAt\<close> \<open>\<le>\<close> now); otherwise
  it returns the whole seconds that remain, \<open>(ExpiredAt - now) div 10\<^sup>9\<close>, as long as
  \<open>ExpiredAt - now\<close> is below \<open>2\<^sup>6\<^sup>3\<close> nanoseconds. From \<open>2\<^sup>6\<^sup>3\<close> on, the conversion to
  \<^verbatim>\<open>int64\<close> makes the difference negative and the result is
  \<open>- ((2\<^sup>6\<^sup>4 - (ExpiredAt - now)) div 10\<^sup>9)\<close>.
\<close>

theorem Segment_TTL_value:
  "sint (Segment_TTL now s) =
     (if ExpiredAt s = 0 \<or> ExpiredAt s \<le> now then - 1
      else if uint (ExpiredAt s) - uint now < 2 ^ 63
           then (uint (ExpiredAt s) - uint now) div 1000000000
           else - ((2 ^ 64 - (uint (ExpiredAt s) - uint now)) div 1000000000))"
proof (cases "ExpiredAt s = 0 \<or> ExpiredAt s \<le> now")
  case True
  then have "\<not> (ExpiredAt s > 0 \<and> ExpiredAt s > now)"
    by (auto simp: word_greater_zero_iff)
  then have "Segment_TTL now s = - 1"
    unfolding Segment_TTL_def by (rule if_not_P)
  with True show ?thesis by simp
next
  case False
  then have c: "ExpiredAt s > 0 \<and> ExpiredAt s > now"
    by (auto simp: word_greater_zero_iff)
  define d where "d = uint (ExpiredAt s) - uint now"
  have le: "uint now \<le> uint (ExpiredAt s)"
    using c by (simp add: word_less_def)
  have ud: "uint (ExpiredAt s - now) = d"
    unfolding d_def using le by (simp add: uint_sub_lem)
  have dlt: "d < 18446744073709551616"
    using uint_lt2p [of "ExpiredAt s - now"] by (simp add: ud)
  have dpos: "0 \<le> d"
    using le by (simp add: d_def)
  have "Segment_TTL now s = word_of_int (sint (ExpiredAt s - now) sdiv sint Second)"
    unfolding Segment_TTL_def using c by (rule if_P)
  then have ttl: "Segment_TTL now s = word_of_int (sint (ExpiredAt s - now) sdiv 1000000000)"
    by (simp add: Second_def)
  show ?thesis
  proof (cases "d < 9223372036854775808")
    case True
    then have sd: "sint (ExpiredAt s - now) = d"
      by (simp add: sint64_uint ud)
    have q: "d sdiv 1000000000 = d div 1000000000"
      using dpos by (simp add: signed_divide_int_def sgn_if)
    have "sint (word_of_int (d div 1000000000) :: 64 word) = d div 1000000000"
      using div_bounds [OF dpos] True by (intro sint_word_of_int_64) linarith+
    then have r: "sint (Segment_TTL now s) = d div 1000000000"
      by (simp add: ttl sd q)
    from False True show ?thesis
      unfolding r by (simp add: d_def)
  next
    case no: False
    then have sd: "sint (ExpiredAt s - now) = d - 18446744073709551616"
      by (simp add: sint64_uint ud)
    define m where "m = 18446744073709551616 - d"
    have mpos: "0 \<le> m" "0 < m" using dlt by (simp_all add: m_def)
    have q: "(d - 18446744073709551616) sdiv 1000000000 = - (m div 1000000000)"
      using mpos by (simp add: signed_divide_int_def sgn_if m_def)
    have mle: "m \<le> 9223372036854775808" using no by (simp add: m_def)
    have "sint (word_of_int (- (m div 1000000000)) :: 64 word) = - (m div 1000000000)"
      using div_bounds [OF mpos(1)] mle by (intro sint_word_of_int_64) linarith+
    then have r: "sint (Segment_TTL now s) = - (m div 1000000000)"
      by (simp add: ttl sd q)
    from False no show ?thesis
      unfolding r by (simp add: d_def m_def)
  qed
qed

theorem Segment_TTL_value_witness:
  "sint (Segment_TTL 1700000000000000000 text_segment) = 5 \<and>
   sint (Segment_TTL 1700000005000000000 text_segment) = - 1 \<and>
   sint (Segment_TTL 0 (text_segment \<lparr> ExpiredAt := 0 \<rparr>)) = - 1"
  using Segment_TTL_value [of 1700000000000000000 text_segment]
    Segment_TTL_value [of 1700000005000000000 text_segment]
    Segment_TTL_value [of 0 "text_segment \<lparr> ExpiredAt := 0 \<rparr>"]
  by (simp add: text_segment_def)

text \<open>
  A record that expires \<open>10\<^sup>1\<^sup>0\<close> seconds after now: the claim gives \<open>10\<^sup>1\<^sup>0\<close>, the code
  \<open>-8446744073\<close>.
\<close>

theorem Segment_TTL_counterexample:
  "sint (Segment_TTL 1700000000000000000 (text_segment \<lparr> ExpiredAt := 11700000000000000000 \<rparr>))
     = - 8446744073 \<and>
   ((11700000000000000000 - 1700000000000000000) div 1000000000 :: int) = 10000000000"
  by (simp add: Segment_TTL_def text_segment_def Second_def signed_divide_int_def)


section \<open>Tombstones and Delete\<close>

lemma length_bytes_of: "length (bytes_of k) = length k"
  by (simp add: bytes_of_def)

text \<open>
  C4. For every key \<open>k\<close> of the data model (shorter than \<open>2\<^sup>3\<^sup>2\<close> bytes), present in the
  index or not, the record that Delete writes is \<^verbatim>\<open>NewTombstoneSegment(k)\<close>; it has
  \<^verbatim>\<open>Tombstone\<close> = 1, Kind \<^verbatim>\<open>Unknown\<close>, an empty value with \<^verbatim>\<open>ValueSize\<close> = 0,
  \<^verbatim>\<open>ExpiredAt\<close> = 0, the key \<open>k\<close> and \<^verbatim>\<open>KeySize\<close> = \<open>len(k)\<close>. Delete is idempotent: a
  second Delete of \<open>k\<close> leaves the index as the first left it, without an entry for \<open>k\<close>.
\<close>

theorem NewTombstoneSegment_Delete:
  assumes "length k < 2 ^ 32"
  shows "records (Delete now0 k e) = records e @ [NewTombstoneSegment now0 k] \<and>
         Tombstone (NewTombstoneSegment now0 k) = 1 \<and>
         IsTombstone (NewTombstoneSegment now0 k) \<and>
         Type (NewTombstoneSegment now0 k) = Unknown \<and>
         Value (NewTombstoneSegment now0 k) = [] \<and>
         ValueSize (NewTombstoneSegment now0 k) = 0 \<and>
         ExpiredAt (NewTombstoneSegment now0 k) = 0 \<and>
         Key (NewTombstoneSegment now0 k) = bytes_of k \<and>
         unat (KeySize (NewTombstoneSegment now0 k)) = length k \<and>
         index (Delete now0 k e) (bytes_of k) = None \<and>
         index (Delete now1 k (Delete now0 k e)) = index (Delete now0 k e)"
proof -
  from assms have "unat (word_of_nat (length k) :: 32 word) = length k"
    by (simp add: unat_of_nat)
  then show ?thesis
    by (simp add: NewTombstoneSegment_def Delete_def IsTombstone_def)
qed

theorem NewTombstoneSegment_Delete_witness:
  "length ''k'' < 2 ^ 32 \<and>
   NewTombstoneSegment 1700000000000000000 ''k'' =
     \<lparr> Tombstone = 1, Type = 5, ExpiredAt = 0, CreatedAt = 1700000000000000000,
       KeySize = 1, ValueSize = 0, Key = [107], Value = [] \<rparr> \<and>
   index (Delete 1700000000000000000 ''k''
     \<lparr> records = [text_segment], index = [[107] \<mapsto> (0::nat)] \<rparr>) [107] = None"
  using NewTombstoneSegment_Delete [of "''k''" 1700000000000000000
      "\<lparr> records = [text_segment], index = [[107] \<mapsto> (0::nat)] \<rparr>" 1700000000000000000]
  by (simp add: NewTombstoneSegment_def Unknown_def bytes_of_def)

section \<open>Typed conversions: the older copy\<close>

text \<open>
  Each conversion that declares its result with \<^verbatim>\<open>var\<close> fails with an error and returns
  no value when the Kind of the segment is not its own; when the Kind matches it returns
  the payload that msgpack decodes from \<^verbatim>\<open>s.Value\<close> into the zero value, or the error of
  the decoding.
\<close>

lemma typed_conversions_var:
  "(if Type s = Set
    then ToSet mp s =
      map_sum id (\<lambda>m. \<lparr> Set_Set = m, Set_TTL = 0 \<rparr>) (Unmarshal_set mp (Value s) Map.empty)
    else \<exists>err. ToSet mp s = Inl err) \<and>
   (if Type s = ZSet
    then ToZSet mp s =
      map_sum id (\<lambda>m. \<lparr> ZSet_ZSet = m, ZSet_TTL = 0, ZSet_sortedScores = [] \<rparr>)
        (Unmarshal_zset mp (Value s) Map.empty)
    else \<exists>err. ToZSet mp s = Inl err) \<and>
   (if Type s = Text
    then ToText mp s =
      map_sum id (\<lambda>c. \<lparr> Text_Content = c, Text_TTL = 0 \<rparr>) (Unmarshal_text mp (Value s) [])
    else \<exists>err. ToText mp s = Inl err) \<and>
   (if Type s = Table
    then ToTable mp s =
      map_sum id (\<lambda>m. \<lparr> Table_Table = m, Table_TTL = 0 \<rparr>)
        (Unmarshal_table mp (Value s) Map.empty)
    else \<exists>err. ToTable mp s = Inl err) \<and>
   (if Type s = Number
    then ToNumber mp s =
      map_sum id (\<lambda>v. \<lparr> Number_Value = v, Number_TTL = 0 \<rparr>) (Unmarshal_number mp (Value s) 0)
    else \<exists>err. ToNumber mp s = Inl err) \<and>
   (if Type s = Collection
    then ToCollection mp s =
      map_sum id (\<lambda>xs. \<lparr> Collection_Collection = xs, Collection_TTL = 0 \<rparr>)
        (Unmarshal_collection mp (Value s) None)
    else \<exists>err. ToCollection mp s = Inl err)"
  by (simp add: ToSet_def ToZSet_def ToText_def ToTable_def ToNumber_def ToCollection_def
      split: sum.splits)

lemma string_of_v: "string_of [118] = ''v''"
  by code_simp

lemma typed_conversions_var_text_segment:
  "ToText fixstr_msgpack text_segment = Inr \<lparr> Text_Content = ''v'', Text_TTL = 0 \<rparr> \<and>
   ToSet fixstr_msgpack text_segment = Inl (fmt_Errorf ''not support conversion to set type'') \<and>
   ToText fixstr_msgpack (text_segment \<lparr> Value := [] \<rparr>) = Inl (library_error 1)"
  by (simp add: text_segment_def fixstr_msgpack_def fixstr_Unmarshal_def string_of_v
      ToSet_def ToText_def Kind_defs)

section \<open>The Kind of a live record\<close>

lemma toKind_Unknown_iff: "toKind data = Unknown \<longleftrightarrow> (\<exists>r. data = other_type r)"
  by (cases data) (simp_all add: Kind_defs)

lemma toKind_values:
  "toKind data \<in> {Set, ZSet, Text, Table, Number, Collection} \<or> (\<exists>r. data = other_type r)"
  by (cases data) simp_all

text \<open>
  C6 fails on the code. \<^verbatim>\<open>NewSegment\<close> accepts every \<^verbatim>\<open>Serializable\<close>; for a payload
  whose type is not one of the six pointer types, \<^verbatim>\<open>toKind\<close> returns \<^verbatim>\<open>Unknown\<close> and the
  constructor returns a live record (\<^verbatim>\<open>Tombstone\<close> = 0) of that Kind, where its comment
  announces an error. Here the payload's \<^verbatim>\<open>ToBytes\<close> returns the one byte \<open>0xc0\<close>
  (msgpack's nil).
\<close>

theorem NewSegment_live_Unknown:
  "NewSegment no_transform fixstr_msgpack 1700000000000000000 1700000000000000000
     ''k'' (other_type (Inr [192])) 0 =
   Inr \<lparr> Tombstone = 0, Type = Unknown, ExpiredAt = 0, CreatedAt = 1700000000000000000,
         KeySize = 1, ValueSize = 1, Key = [107], Value = [192] \<rparr>"
  by (simp add: NewSegment_def no_transform_def bytes_of_def)

section \<open>The empty key\<close>

text \<open>
  C8, as amended. The constructors of the write path do not reject the empty key: for the
  key \<open>""\<close>, whenever the payload serializes and the transformer encodes it,
  \<^verbatim>\<open>NewSegment\<close> and \<^verbatim>\<open>AcquirePoolSegment\<close> return a live record with \<^verbatim>\<open>KeySize\<close> = 0
  and an empty \<^verbatim>\<open>Key\<close>.
\<close>

theorem empty_key_accepted:
  assumes "ToBytes mp data = Inr bs" and "Encode bs = Inr encodedata"
  shows "\<exists>seg. NewSegment Encode mp now0 now1 '''' data ttl = Inr seg \<and>
           fst (AcquirePoolSegment Encode mp now0 now1 pick '''' data ttl pool) = Inr seg \<and>
           Tombstone seg = 0 \<and> KeySize seg = 0 \<and> Key seg = [] \<and> Value seg = encodedata"
  using assms
  by (simp add: AcquirePoolSegment_result) (simp add: NewSegment_def bytes_of_def)

theorem empty_key_accepted_witness:
  "ToBytes fixstr_msgpack (Text_ptr (NewText ''v'')) = Inr [161, 118] \<and>
   no_transform [161, 118] = Inr [161, 118] \<and>
   (\<exists>seg. NewSegment no_transform fixstr_msgpack 1700000000000000000 1700000000000000000
            '''' (Text_ptr (NewText ''v'')) 0 = Inr seg \<and> Tombstone seg = 0 \<and> KeySize seg = 0)"
proof -
  have a: "ToBytes fixstr_msgpack (Text_ptr (NewText ''v'')) = Inr [161, 118]"
    by (simp add: fixstr_msgpack_def fixstr_Marshal_def NewText_def bytes_of_def)
  have b: "no_transform [161, 118] = Inr [161, 118]"
    by (simp add: no_transform_def)
  from empty_key_accepted [where Encode = no_transform and mp = fixstr_msgpack
      and data = "Text_ptr (NewText ''v'')" and bs = "[161, 118]" and encodedata = "[161, 118]"
      and ?now0.0 = 1700000000000000000 and ?now1.0 = 1700000000000000000 and ttl = 0
      and pick = None and pool = "[]", OF a b]
  show ?thesis using a b by blast
qed

theorem empty_key_counterexample:
  "NewSegment no_transform fixstr_msgpack 1700000000000000000 1700000000000000000
     '''' (Text_ptr (NewText ''v'')) 0 =
   Inr \<lparr> Tombstone = 0, Type = Text, ExpiredAt = 0, CreatedAt = 1700000000000000000,
         KeySize = 0, ValueSize = 2, Key = [], Value = [161, 118] \<rparr>"
  by (simp add: NewSegment_def fixstr_msgpack_def fixstr_Marshal_def no_transform_def NewText_def
      bytes_of_def)

section \<open>The object pools\<close>

text \<open>
  What \<^verbatim>\<open>Clear\<close> leaves of a Set, a ZSet, a Text, a Table or a Number is the new value.
  What it leaves of a Collection has an empty slice, where the new Collection has a
  \<^verbatim>\<open>nil\<close> slice.
\<close>

lemma types_Clear_fresh:
  "Set_Clear s = NewSet" "ZSet_Clear z = NewZSet" "Text_Clear t = NewText ''''"
  "Table_Clear tab = NewTable" "Number_Clear n = NewNumber 0"
  by (simp_all add: Set_Clear_def ZSet_Clear_def Text_Clear_def Table_Clear_def Number_Clear_def
      NewSet_def NewZSet_def NewText_def NewTable_def NewNumber_def)

lemma Collection_Clear_empty_slice:
  "Collection_Clear c = NewCollection \<lparr> Collection_Collection := Some [] \<rparr>"
  by (simp add: Collection_Clear_def NewCollection_def)

lemma Collection_Clear_not_new: "Collection_Clear c \<noteq> NewCollection"
proof
  assume "Collection_Clear c = NewCollection"
  then have "Collection_Collection (Collection_Clear c) = Collection_Collection NewCollection"
    by simp
  then show False
    by (simp add: Collection_Clear_def NewCollection_def)
qed

text \<open>What \<^verbatim>\<open>Clear\<close> leaves of a segment is the new segment but for its Kind.\<close>

lemma Segment_Clear_keeps_Type: "Segment_Clear s = new_Segment \<lparr> Type := Type s \<rparr>"
  by (simp add: Segment_Clear_def new_Segment_def)

text \<open>
  C9 fails on the code. \<^verbatim>\<open>Segment.Clear\<close> resets seven of the eight fields and leaves
  \<^verbatim>\<open>Type\<close>: the segment of a text, released to the empty pool and taken from it again,
  still has the Kind \<^verbatim>\<open>Text\<close>, which a new segment does not have.
\<close>

theorem Segment_Clear_leaves_Kind:
  "Type (Segment_Clear text_segment) = Text \<and>
   Type new_Segment = Set \<and>
   Pool_Get new_Segment (Some 0) (Segment_ReleaseToPool text_segment []) =
     (new_Segment \<lparr> Type := Text \<rparr>, []) \<and>
   new_Segment \<lparr> Type := Text \<rparr> \<noteq> new_Segment"
  by (simp add: Segment_Clear_def Segment_ReleaseToPool_def Pool_Get_def Pool_Put_def
      text_segment_def new_Segment_def Kind_defs)

lemma Put_times_replicate: "Put_times n x pool = pool @ replicate n x"
  by (induction n arbitrary: pool) (simp_all add: Pool_Put_def replicate_app_Cons_same)

lemma zsetPools_after_init:
  "zsetPools types_init = replicate 10 (Set_ptr NewSet) @ replicate 10 (ZSet_ptr NewZSet)"
  by (simp add: types_init_def init_zset_def init_text_def init_table_def init_set_def
      init_number_def init_collection_def no_pools_def Put_times_replicate)

text \<open>
  C10 fails on the code. After package initialisation \<^verbatim>\<open>zsetPools\<close> holds the ten
  \<^verbatim>\<open>*Set\<close> values that the \<^verbatim>\<open>init\<close> beside \<^verbatim>\<open>Set\<close> put there; when \<^verbatim>\<open>Get\<close> hands
  out one of them, the type assertion of \<^verbatim>\<open>AcquireZSet\<close> panics.
\<close>

theorem AcquireZSet_panics:
  "AcquireZSet (Some 0) types_init = Inl (interface_conversion (Set_ptr NewSet))"
  by (simp add: AcquireZSet_def zsetPools_after_init Pool_Get_def eval_nat_numeral)


section \<open>Typed conversions: the newer copy\<close>

text \<open>A conversion whose Kind does not match returns its error and leaves the pools.\<close>

lemma pooled_conversions_mismatch:
  "Type s \<noteq> Set \<Longrightarrow>
     ToSet_pooled pick mp s st = Inr (Inl (fmt_Errorf ''not support conversion to set type''), st)"
  "Type s \<noteq> ZSet \<Longrightarrow>
     ToZSet_pooled pick mp s st = Inr (Inl (fmt_Errorf ''not support conversion to zset type''), st)"
  "Type s \<noteq> Text \<Longrightarrow>
     ToText_pooled pick mp s st = Inr (Inl (fmt_Errorf ''not support conversion to text type''), st)"
  "Type s \<noteq> Table \<Longrightarrow>
     ToTable_pooled pick mp s st =
       Inr (Inl (fmt_Errorf ''not support conversion to table type''), st)"
  "Type s \<noteq> Number \<Longrightarrow>
     ToNumber_pooled pick mp s st =
       Inr (Inl (fmt_Errorf ''not support conversion to number type''), st)"
  "Type s \<noteq> Collection \<Longrightarrow>
     ToCollection_pooled pick mp s st =
       Inr (Inl (fmt_Errorf ''not support conversion to collection type''), st)"
  by (simp_all add: ToSet_pooled_def ToZSet_pooled_def ToText_pooled_def ToTable_pooled_def
      ToNumber_pooled_def ToCollection_pooled_def)

text \<open>
  After package initialisation the pools of the five other types hold new values of their
  own type only, so whatever \<^verbatim>\<open>Get\<close> chooses, the first acquisition returns a new value.
\<close>

lemma Pool_Get_replicate: "fst (Pool_Get x pick (replicate n x)) = x"
  by (simp add: Pool_Get_def split: option.splits)

lemma pools_after_init:
  "setPools types_init = []"
  "textPools types_init = replicate 10 (Text_ptr (NewText []))"
  "tablePools types_init = replicate 10 (Table_ptr NewTable)"
  "numberPools types_init = replicate 10 (Number_ptr (NewNumber 0))"
  "collectionPools types_init = replicate 10 (Collection_ptr NewCollection)"
  by (simp_all add: types_init_def init_zset_def init_text_def init_table_def init_set_def
      init_number_def init_collection_def no_pools_def Put_times_replicate)

lemma Acquire_after_init:
  "\<exists>st. AcquireSet pick types_init = Inr (NewSet, st)"
  "\<exists>st. AcquireText pick types_init = Inr (NewText [], st)"
  "\<exists>st. AcquireTable pick types_init = Inr (NewTable, st)"
  "\<exists>st. AcquireNumber pick types_init = Inr (NewNumber 0, st)"
  "\<exists>st. AcquireCollection pick types_init = Inr (NewCollection, st)"
  using Pool_Get_replicate [of "Set_ptr NewSet" pick 0]
    Pool_Get_replicate [of "Text_ptr (NewText [])" pick 10]
    Pool_Get_replicate [of "Table_ptr NewTable" pick 10]
    Pool_Get_replicate [of "Number_ptr (NewNumber 0)" pick 10]
    Pool_Get_replicate [of "Collection_ptr NewCollection" pick 10]
  by (auto simp: AcquireSet_def AcquireText_def AcquireTable_def AcquireNumber_def
      AcquireCollection_def pools_after_init split: prod.splits)

text \<open>
  With the value that such an acquisition returns, a conversion whose Kind matches returns
  what msgpack decodes from \<^verbatim>\<open>s.Value\<close> into that value, or the error of the decoding.
\<close>

lemma ToText_pooled_after_init:
  assumes "Type s = Text"
  shows "\<exists>st. ToText_pooled pick mp s types_init =
           Inr (map_sum id (\<lambda>c. NewText c) (Unmarshal_text mp (Value s) []), st)"
proof -
  from Acquire_after_init(2) [of pick] obtain st1
    where "AcquireText pick types_init = Inr (NewText [], st1)" ..
  with assms show ?thesis
    by (simp add: ToText_pooled_def NewText_def split: sum.splits)
qed

text \<open>
  C5 fails on the code. The conversion \<^verbatim>\<open>ToZSet\<close> that the server calls takes its result
  from \<^verbatim>\<open>zsetPools\<close>, which package initialisation has filled with ten \<^verbatim>\<open>*Set\<close> values:
  for every segment of Kind \<^verbatim>\<open>ZSet\<close>, when \<^verbatim>\<open>Get\<close> hands out the first of them the
  conversion panics, where the claim has it return the decoded payload or an error.
\<close>

theorem ToZSet_pooled_panics:
  "ToZSet_pooled (Some 0) mp (s \<lparr> Type := ZSet \<rparr>) types_init =
     Inl (interface_conversion (Set_ptr NewSet))"
  by (simp add: ToZSet_pooled_def AcquireZSet_def zsetPools_after_init Pool_Get_def
      eval_nat_numeral)

end
